theory Spec2Isabelle
  imports Main "HOL-Library.Word"
begin

unbundle bit_operations_syntax

section \<open>Data model of the booking bot (src/Main.go, lines 17-42)\<close>

text \<open>
  Go's \<^verbatim>\<open>int64\<close> is a 64-bit word read as a signed number. Go's \<^verbatim>\<open>int\<close> has the
  platform's width; the development fixes the 64-bit platforms, where it is the same type.
  Strings are byte sequences, as in Go.
\<close>

type_synonym int64 = "64 word"

record Trainer =
  ID :: int64
  Name :: string
  Bio :: string
  Achievements :: "string list"
  Slots :: "string list"

record Booking =
  UserID :: int64
  Trainer :: int64
  TimeSlot :: string
  BookedAt :: int64

record User =
  ID :: int64
  Name :: string
  HasPaid :: bool

text \<open>
  \<^verbatim>\<open>Users map[int64]*User\<close>: the map holds pointers, and a pointer may be nil (a record
  loaded from disk can map a key to \<^verbatim>\<open>null\<close>). A pointer is modelled as an option,
  \<open>None\<close> being nil; so \<open>Users s k = None\<close> says that the key is absent and
  \<open>Users s k = Some None\<close> that it is present with a nil pointer. A nil map and an
  empty map are both \<open>Map.empty\<close>, a nil slice and an empty slice both \<open>[]\<close>.
\<close>

record AppState =
  Users :: "int64 \<rightharpoonup> User option"
  Trainers :: "Trainer list"
  Bookings :: "Booking list"

section \<open>The seed catalogue (lines 57-69)\<close>

definition defaultSlots :: "string list" where
  "defaultSlots =
     [''08:00'', ''09:00'', ''10:00'', ''11:00'', ''12:00'', ''13:00'', ''14:00'',
      ''15:00'', ''16:00'', ''17:00'', ''18:00'', ''19:00'', ''20:00'']"

text \<open>
  The names, biographies and achievements of the source are Cyrillic text; they are given
  here as the UTF-8 bytes of the source's string literals.
\<close>

definition trainer1_Name :: string where
  "trainer1_Name =
    [CHR 0xD0, CHR 0x90, CHR 0xD0, CHR 0xB9, CHR 0xD0, CHR 0xB4, CHR 0xD0, CHR 0xBE, CHR 0xD1,
     CHR 0x81, CHR 0x20, CHR 0xD0, CHR 0x9D, CHR 0xD1, CHR 0x83, CHR 0xD1, CHR 0x80, CHR 0xD1,
     CHR 0x82, CHR 0xD0, CHR 0xB0, CHR 0xD0, CHR 0xB5, CHR 0xD0, CHR 0xB2]"

definition trainer1_Bio :: string where
  "trainer1_Bio =
    [CHR 0xD0, CHR 0xA1, CHR 0xD0, CHR 0xB8, CHR 0xD0, CHR 0xBB, CHR 0xD0, CHR 0xBE, CHR 0xD0,
     CHR 0xB2, CHR 0xD0, CHR 0xBE, CHR 0xD0, CHR 0xB9, CHR 0x20, CHR 0xD1, CHR 0x82, CHR 0xD1,
     CHR 0x80, CHR 0xD0, CHR 0xB5, CHR 0xD0, CHR 0xBD, CHR 0xD0, CHR 0xB8, CHR 0xD0, CHR 0xBD,
     CHR 0xD0, CHR 0xB3, CHR 0x2C, CHR 0x20, CHR 0xD1, CHR 0x84, CHR 0xD1, CHR 0x83, CHR 0xD0,
     CHR 0xBD, CHR 0xD0, CHR 0xBA, CHR 0xD1, CHR 0x86, CHR 0xD0, CHR 0xB8, CHR 0xD0, CHR 0xBE,
     CHR 0xD0, CHR 0xBD, CHR 0xD0, CHR 0xB0, CHR 0xD0, CHR 0xBB, CHR 0xD1, CHR 0x8C, CHR 0xD0,
     CHR 0xBD, CHR 0xD0, CHR 0xB0, CHR 0xD1, CHR 0x8F, CHR 0x20, CHR 0xD0, CHR 0xBF, CHR 0xD0,
     CHR 0xBE, CHR 0xD0, CHR 0xB4, CHR 0xD0, CHR 0xB3, CHR 0xD0, CHR 0xBE, CHR 0xD1, CHR 0x82,
     CHR 0xD0, CHR 0xBE, CHR 0xD0, CHR 0xB2, CHR 0xD0, CHR 0xBA, CHR 0xD0, CHR 0xB0, CHR 0x2E]"

definition trainer1_Achievement1 :: string where
  "trainer1_Achievement1 =
    [CHR 0xD0, CHR 0x9C, CHR 0xD0, CHR 0xA1, CHR 0x20, CHR 0xD0, CHR 0xBF, CHR 0xD0, CHR 0xBE,
     CHR 0x20, CHR 0xD0, CHR 0xBF, CHR 0xD0, CHR 0xB0, CHR 0xD1, CHR 0x83, CHR 0xD1, CHR 0x8D,
     CHR 0xD1, CHR 0x80, CHR 0xD0, CHR 0xBB, CHR 0xD0, CHR 0xB8, CHR 0xD1, CHR 0x84, CHR 0xD1,
     CHR 0x82, CHR 0xD0, CHR 0xB8, CHR 0xD0, CHR 0xBD, CHR 0xD0, CHR 0xB3, CHR 0xD1, CHR 0x83]"

definition trainer1_Achievement2 :: string where
  "trainer1_Achievement2 =
    [CHR 0xD0, CHR 0x9F, CHR 0xD0, CHR 0xBE, CHR 0xD0, CHR 0xB1, CHR 0xD0, CHR 0xB5, CHR 0xD0,
     CHR 0xB4, CHR 0xD0, CHR 0xB8, CHR 0xD1, CHR 0x82, CHR 0xD0, CHR 0xB5, CHR 0xD0, CHR 0xBB,
     CHR 0xD1, CHR 0x8C, CHR 0x20, CHR 0x41, CHR 0x6C, CHR 0x6D, CHR 0x61, CHR 0x74, CHR 0x79,
     CHR 0x20, CHR 0x4F, CHR 0x70, CHR 0x65, CHR 0x6E, CHR 0x20, CHR 0x32, CHR 0x30, CHR 0x32,
     CHR 0x32]"

definition trainer2_Name :: string where
  "trainer2_Name =
    [CHR 0xD0, CHR 0x90, CHR 0xD0, CHR 0xBB, CHR 0xD0, CHR 0xB8, CHR 0xD1, CHR 0x8F, CHR 0x20,
     CHR 0xD0, CHR 0x96, CHR 0xD0, CHR 0xB0, CHR 0xD0, CHR 0xBA, CHR 0xD1, CHR 0x81, CHR 0xD1,
     CHR 0x8B, CHR 0xD0, CHR 0xBB, CHR 0xD1, CHR 0x8B, CHR 0xD0, CHR 0xBA, CHR 0xD0, CHR 0xBE,
     CHR 0xD0, CHR 0xB2, CHR 0xD0, CHR 0xB0]"

definition trainer2_Bio :: string where
  "trainer2_Bio =
    [CHR 0xD0, CHR 0xA4, CHR 0xD0, CHR 0xB8, CHR 0xD1, CHR 0x82, CHR 0xD0, CHR 0xBD, CHR 0xD0,
     CHR 0xB5, CHR 0xD1, CHR 0x81, CHR 0x20, CHR 0xD0, CHR 0xB4, CHR 0xD0, CHR 0xBB, CHR 0xD1,
     CHR 0x8F, CHR 0x20, CHR 0xD0, CHR 0xB6, CHR 0xD0, CHR 0xB5, CHR 0xD0, CHR 0xBD, CHR 0xD1,
     CHR 0x89, CHR 0xD0, CHR 0xB8, CHR 0xD0, CHR 0xBD, CHR 0x2C, CHR 0x20, CHR 0xD0, CHR 0xBF,
     CHR 0xD0, CHR 0xBE, CHR 0xD1, CHR 0x81, CHR 0xD0, CHR 0xBB, CHR 0xD0, CHR 0xB5, CHR 0xD1,
     CHR 0x80, CHR 0xD0, CHR 0xBE, CHR 0xD0, CHR 0xB4, CHR 0xD0, CHR 0xBE, CHR 0xD0, CHR 0xB2,
     CHR 0xD0, CHR 0xBE, CHR 0xD0, CHR 0xB5, CHR 0x20, CHR 0xD0, CHR 0xB2, CHR 0xD0, CHR 0xBE,
     CHR 0xD1, CHR 0x81, CHR 0xD1, CHR 0x81, CHR 0xD1, CHR 0x82, CHR 0xD0, CHR 0xB0, CHR 0xD0,
     CHR 0xBD, CHR 0xD0, CHR 0xBE, CHR 0xD0, CHR 0xB2, CHR 0xD0, CHR 0xBB, CHR 0xD0, CHR 0xB5,
     CHR 0xD0, CHR 0xBD, CHR 0xD0, CHR 0xB8, CHR 0xD0, CHR 0xB5, CHR 0x2E]"

definition trainer2_Achievement1 :: string where
  "trainer2_Achievement1 =
    [CHR 0xD0, CHR 0xA1, CHR 0xD0, CHR 0xB5, CHR 0xD1, CHR 0x80, CHR 0xD1, CHR 0x82, CHR 0xD0,
     CHR 0xB8, CHR 0xD1, CHR 0x84, CHR 0xD0, CHR 0xB8, CHR 0xD1, CHR 0x86, CHR 0xD0, CHR 0xB8,
     CHR 0xD1, CHR 0x80, CHR 0xD0, CHR 0xBE, CHR 0xD0, CHR 0xB2, CHR 0xD0, CHR 0xB0, CHR 0xD0,
     CHR 0xBD, CHR 0xD0, CHR 0xBD, CHR 0xD1, CHR 0x8B, CHR 0xD0, CHR 0xB9, CHR 0x20, CHR 0xD0,
     CHR 0xBF, CHR 0xD0, CHR 0xB5, CHR 0xD1, CHR 0x80, CHR 0xD1, CHR 0x81, CHR 0xD0, CHR 0xBE,
     CHR 0xD0, CHR 0xBD, CHR 0xD0, CHR 0xB0, CHR 0xD0, CHR 0xBB, CHR 0xD1, CHR 0x8C, CHR 0xD0,
     CHR 0xBD, CHR 0xD1, CHR 0x8B, CHR 0xD0, CHR 0xB9, CHR 0x20, CHR 0xD1, CHR 0x82, CHR 0xD1,
     CHR 0x80, CHR 0xD0, CHR 0xB5, CHR 0xD0, CHR 0xBD, CHR 0xD0, CHR 0xB5, CHR 0xD1, CHR 0x80,
     CHR 0x20, CHR 0x4E, CHR 0x41, CHR 0x53, CHR 0x4D]"

definition trainer3_Name :: string where
  "trainer3_Name =
    [CHR 0xD0, CHR 0xA0, CHR 0xD0, CHR 0xB0, CHR 0xD1, CHR 0x81, CHR 0xD1, CHR 0x83, CHR 0xD0,
     CHR 0xBB, CHR 0x20, CHR 0xD0, CHR 0x90, CHR 0xD0, CHR 0xB1, CHR 0xD0, CHR 0xB4, CHR 0xD1,
     CHR 0x80, CHR 0xD0, CHR 0xB0, CHR 0xD1, CHR 0x85, CHR 0xD0, CHR 0xBC, CHR 0xD0, CHR 0xB0,
     CHR 0xD0, CHR 0xBD]"

definition trainer3_Bio :: string where
  "trainer3_Bio =
    [CHR 0xD0, CHR 0x91, CHR 0xD0, CHR 0xBE, CHR 0xD0, CHR 0xBA, CHR 0xD1, CHR 0x81, CHR 0x2C,
     CHR 0x20, CHR 0xD0, CHR 0x9E, CHR 0xD0, CHR 0xA4, CHR 0xD0, CHR 0x9F, CHR 0x2C, CHR 0x20,
     CHR 0xD0, CHR 0xB2, CHR 0xD1, CHR 0x8B, CHR 0xD0, CHR 0xBD, CHR 0xD0, CHR 0xBE, CHR 0xD1,
     CHR 0x81, CHR 0xD0, CHR 0xBB, CHR 0xD0, CHR 0xB8, CHR 0xD0, CHR 0xB2, CHR 0xD0, CHR 0xBE,
     CHR 0xD1, CHR 0x81, CHR 0xD1, CHR 0x82, CHR 0xD1, CHR 0x8C, CHR 0x2E]"

definition trainer3_Achievement1 :: string where
  "trainer3_Achievement1 =
    [CHR 0xD0, CHR 0xA7, CHR 0xD0, CHR 0xB5, CHR 0xD0, CHR 0xBC, CHR 0xD0, CHR 0xBF, CHR 0xD0,
     CHR 0xB8, CHR 0xD0, CHR 0xBE, CHR 0xD0, CHR 0xBD, CHR 0x20, CHR 0xD0, CHR 0xA0, CHR 0xD0,
     CHR 0x9A, CHR 0x20, CHR 0xD1, CHR 0x81, CHR 0xD1, CHR 0x80, CHR 0xD0, CHR 0xB5, CHR 0xD0,
     CHR 0xB4, CHR 0xD0, CHR 0xB8, CHR 0x20, CHR 0xD1, CHR 0x8E, CHR 0xD0, CHR 0xBD, CHR 0xD0,
     CHR 0xB8, CHR 0xD0, CHR 0xBE, CHR 0xD1, CHR 0x80, CHR 0xD0, CHR 0xBE, CHR 0xD0, CHR 0xB2,
     CHR 0x20, CHR 0xD0, CHR 0xBF, CHR 0xD0, CHR 0xBE, CHR 0x20, CHR 0xD0, CHR 0xB1, CHR 0xD0,
     CHR 0xBE, CHR 0xD0, CHR 0xBA, CHR 0xD1, CHR 0x81, CHR 0xD1, CHR 0x83]"

definition trainer4_Name :: string where
  "trainer4_Name =
    [CHR 0xD0, CHR 0x94, CHR 0xD0, CHR 0xB8, CHR 0xD0, CHR 0xBD, CHR 0xD0, CHR 0xB0, CHR 0xD1,
     CHR 0x80, CHR 0xD0, CHR 0xB0, CHR 0x20, CHR 0xD0, CHR 0x95, CHR 0xD1, CHR 0x81, CHR 0xD0,
     CHR 0xBC, CHR 0xD1, CHR 0x83, CHR 0xD1, CHR 0x85, CHR 0xD0, CHR 0xB0, CHR 0xD0, CHR 0xBD]"

definition trainer4_Bio :: string where
  "trainer4_Bio =
    [CHR 0xD0, CHR 0x99, CHR 0xD0, CHR 0xBE, CHR 0xD0, CHR 0xB3, CHR 0xD0, CHR 0xB0, CHR 0x2C,
     CHR 0x20, CHR 0xD0, CHR 0xB3, CHR 0xD0, CHR 0xB8, CHR 0xD0, CHR 0xB1, CHR 0xD0, CHR 0xBA,
     CHR 0xD0, CHR 0xBE, CHR 0xD1, CHR 0x81, CHR 0xD1, CHR 0x82, CHR 0xD1, CHR 0x8C, CHR 0x2C,
     CHR 0x20, CHR 0xD0, CHR 0xB4, CHR 0xD1, CHR 0x8B, CHR 0xD1, CHR 0x85, CHR 0xD0, CHR 0xB0,
     CHR 0xD1, CHR 0x82, CHR 0xD0, CHR 0xB5, CHR 0xD0, CHR 0xBB, CHR 0xD1, CHR 0x8C, CHR 0xD0,
     CHR 0xBD, CHR 0xD1, CHR 0x8B, CHR 0xD0, CHR 0xB5, CHR 0x20, CHR 0xD0, CHR 0xBF, CHR 0xD1,
     CHR 0x80, CHR 0xD0, CHR 0xB0, CHR 0xD0, CHR 0xBA, CHR 0xD1, CHR 0x82, CHR 0xD0, CHR 0xB8,
     CHR 0xD0, CHR 0xBA, CHR 0xD0, CHR 0xB8, CHR 0x2E]"

definition trainer4_Achievement1 :: string where
  "trainer4_Achievement1 =
    [CHR 0x52, CHR 0x59, CHR 0x54, CHR 0x2D, CHR 0x35, CHR 0x30, CHR 0x30, CHR 0x20, CHR 0x59,
     CHR 0x6F, CHR 0x67, CHR 0x61, CHR 0x20, CHR 0x41, CHR 0x6C, CHR 0x6C, CHR 0x69, CHR 0x61,
     CHR 0x6E, CHR 0x63, CHR 0x65]"

definition trainer5_Name :: string where
  "trainer5_Name =
    [CHR 0xD0, CHR 0x9C, CHR 0xD0, CHR 0xB0, CHR 0xD0, CHR 0xB4, CHR 0xD0, CHR 0xB8, CHR 0x20,
     CHR 0xD0, CHR 0x91, CHR 0xD0, CHR 0xB5, CHR 0xD0, CHR 0xBA, CHR 0xD0, CHR 0xB5, CHR 0xD0,
     CHR 0xBD]"

definition trainer5_Bio :: string where
  "trainer5_Bio =
    [CHR 0xD0, CHR 0x9A, CHR 0xD1, CHR 0x80, CHR 0xD0, CHR 0xBE, CHR 0xD1, CHR 0x81, CHR 0xD1,
     CHR 0x81, CHR 0xD1, CHR 0x84, CHR 0xD0, CHR 0xB8, CHR 0xD1, CHR 0x82, CHR 0x2C, CHR 0x20,
     CHR 0xD1, CHR 0x81, CHR 0xD0, CHR 0xBD, CHR 0xD0, CHR 0xB8, CHR 0xD0, CHR 0xB6, CHR 0xD0,
     CHR 0xB5, CHR 0xD0, CHR 0xBD, CHR 0xD0, CHR 0xB8, CHR 0xD0, CHR 0xB5, CHR 0x20, CHR 0xD0,
     CHR 0xB2, CHR 0xD0, CHR 0xB5, CHR 0xD1, CHR 0x81, CHR 0xD0, CHR 0xB0, CHR 0x2E]"

definition trainer5_Achievement1 :: string where
  "trainer5_Achievement1 =
    [CHR 0xD0, CHR 0xA1, CHR 0xD0, CHR 0xB5, CHR 0xD1, CHR 0x80, CHR 0xD1, CHR 0x82, CHR 0xD0,
     CHR 0xB8, CHR 0xD1, CHR 0x84, CHR 0xD0, CHR 0xB8, CHR 0xD1, CHR 0x86, CHR 0xD0, CHR 0xB8,
     CHR 0xD1, CHR 0x80, CHR 0xD0, CHR 0xBE, CHR 0xD0, CHR 0xB2, CHR 0xD0, CHR 0xB0, CHR 0xD0,
     CHR 0xBD, CHR 0xD0, CHR 0xBD, CHR 0xD1, CHR 0x8B, CHR 0xD0, CHR 0xB9, CHR 0x20, CHR 0xD1,
     CHR 0x82, CHR 0xD1, CHR 0x80, CHR 0xD0, CHR 0xB5, CHR 0xD0, CHR 0xBD, CHR 0xD0, CHR 0xB5,
     CHR 0xD1, CHR 0x80, CHR 0x20, CHR 0x43, CHR 0x72, CHR 0x6F, CHR 0x73, CHR 0x73, CHR 0x46,
     CHR 0x69, CHR 0x74, CHR 0x20, CHR 0x4C, CHR 0x31]"

definition defaultTrainers :: "Trainer list" where
  "defaultTrainers =
     [\<lparr>Trainer.ID = 1, Name = trainer1_Name, Bio = trainer1_Bio,
        Achievements = [trainer1_Achievement1, trainer1_Achievement2], Slots = defaultSlots\<rparr>,
      \<lparr>Trainer.ID = 2, Name = trainer2_Name, Bio = trainer2_Bio,
        Achievements = [trainer2_Achievement1], Slots = defaultSlots\<rparr>,
      \<lparr>Trainer.ID = 3, Name = trainer3_Name, Bio = trainer3_Bio,
        Achievements = [trainer3_Achievement1], Slots = defaultSlots\<rparr>,
      \<lparr>Trainer.ID = 4, Name = trainer4_Name, Bio = trainer4_Bio,
        Achievements = [trainer4_Achievement1], Slots = defaultSlots\<rparr>,
      \<lparr>Trainer.ID = 5, Name = trainer5_Name, Bio = trainer5_Bio,
        Achievements = [trainer5_Achievement1], Slots = defaultSlots\<rparr>]"

section \<open>Directory lookups (lines 119-139)\<close>

text \<open>
  \<^verbatim>\<open>getOrCreateUser\<close> returns the pointer stored under the key, creating an unpaid
  user when the key is absent. The model returns the state with the pointer.
\<close>

definition getOrCreateUser :: "AppState \<Rightarrow> int64 \<Rightarrow> string \<Rightarrow> AppState \<times> User option" where
  "getOrCreateUser s uid nm =
     (case Users s uid of
        Some u \<Rightarrow> (s, u)
      | None \<Rightarrow>
          (let u = \<lparr>User.ID = uid, Name = nm, HasPaid = False\<rparr>
           in (s\<lparr>Users := (Users s)(uid \<mapsto> Some u)\<rparr>, Some u)))"

text \<open>
  The three search loops of the source (\<^verbatim>\<open>getTrainerByID\<close>, and the trainer and the slot
  loop of \<^verbatim>\<open>bookSlot\<close>) run from index 0 and stop at the first hit; \<open>None\<close> is the
  source's \<^verbatim>\<open>-1\<close>.
\<close>

fun firstIndex :: "('a \<Rightarrow> bool) \<Rightarrow> 'a list \<Rightarrow> nat option" where
  "firstIndex P [] = None"
| "firstIndex P (x # xs) = (if P x then Some 0 else map_option Suc (firstIndex P xs))"

definition getTrainerByID :: "AppState \<Rightarrow> int64 \<Rightarrow> (Trainer \<times> nat) option" where
  "getTrainerByID s tid =
     (case firstIndex (\<lambda>t. Trainer.ID t = tid) (Trainers s) of
        None \<Rightarrow> None
      | Some i \<Rightarrow> Some (Trainers s ! i, i))"

section \<open>The booking transaction (lines 141-197)\<close>

text \<open>
  The errors of \<^verbatim>\<open>bookSlot\<close>, in the order of its four \<^verbatim>\<open>return fmt.Errorf\<close>
  statements (lines 157, 161, 172, 183); the source tells them apart by their message only.
\<close>

datatype error =
  DifferentTrainerError
| LimitExceededError
| TrainerNotFoundError
| SlotUnavailableError

text \<open>
  The first loop (lines 145-159), with its two variables as arguments: \<open>ex\<close> is
  \<^verbatim>\<open>existingTrainer\<close>, \<open>cnt\<close> is \<^verbatim>\<open>userCountWithThisTrainer\<close>. The counter is at most
  the number of bookings, so it never wraps and is a natural number here.
\<close>

fun scanBookings :: "int64 \<Rightarrow> int64 \<Rightarrow> Booking list \<Rightarrow> int64 \<Rightarrow> nat \<Rightarrow> error + nat" where
  "scanBookings uid tid [] ex cnt = Inr cnt"
| "scanBookings uid tid (b # bs) ex cnt =
     (if UserID b \<noteq> uid then scanBookings uid tid bs ex cnt
      else
        (let ex' = (if ex = 0 then Trainer b else ex)
         in if Trainer b = tid then scanBookings uid tid bs ex' (cnt + 1)
            else if tid \<noteq> ex' then Inl DifferentTrainerError
            else scanBookings uid tid bs ex' cnt))"

text \<open>
  \<open>now\<close> is the value of \<^verbatim>\<open>time.Now().Unix()\<close> at line 193. An error returns before any
  assignment to the state, so the model returns the new state only on success.
  \<^verbatim>\<open>append(slots[:pos], slots[pos+1:]...)\<close> shifts the tail of the slice down by one in
  its own backing array; every trainer's slice has an array of its own (each call of
  \<^verbatim>\<open>defaultSlots\<close> and each decoding allocates), so no other slice sees the shift.
\<close>

definition bookSlot :: "AppState \<Rightarrow> int64 \<Rightarrow> int64 \<Rightarrow> string \<Rightarrow> int64 \<Rightarrow> error + AppState" where
  "bookSlot s uid tid slot now =
     (case scanBookings uid tid (Bookings s) 0 0 of
        Inl e \<Rightarrow> Inl e
      | Inr cnt \<Rightarrow>
          if cnt \<ge> 3 then Inl LimitExceededError
          else
            (case firstIndex (\<lambda>t. Trainer.ID t = tid) (Trainers s) of
               None \<Rightarrow> Inl TrainerNotFoundError
             | Some idx \<Rightarrow>
                 (case firstIndex (\<lambda>x. x = slot) (Slots (Trainers s ! idx)) of
                    None \<Rightarrow> Inl SlotUnavailableError
                  | Some pos \<Rightarrow>
                      (let slots = Slots (Trainers s ! idx)
                       in Inr (s\<lparr>Trainers :=
                                   (Trainers s)[idx := (Trainers s ! idx)
                                      \<lparr>Slots := take pos slots @ drop (pos + 1) slots\<rparr>],
                                 Bookings :=
                                   Bookings s @
                                     [\<lparr>UserID = uid, Trainer = tid, TimeSlot = slot,
                                       BookedAt = now\<rparr>]\<rparr>)))))"

section \<open>The fresh state\<close>

text \<open>The state that \<^verbatim>\<open>loadState\<close> builds when no record exists (lines 75-79).\<close>

definition fresh :: AppState where
  "fresh = \<lparr>Users = Map.empty, Trainers = defaultTrainers, Bookings = []\<rparr>"

section \<open>The persisted record (lines 71-117)\<close>

subsection \<open>What \<^verbatim>\<open>encoding/json\<close> does to strings and integers\<close>

text \<open>
  The encoder writes a string as UTF-8 text: a byte that does not start a well-formed
  UTF-8 sequence (as \<^verbatim>\<open>utf8.DecodeRuneInString\<close> reads it) is written as U+FFFD, every
  other character comes back from the decoder as it was. \<open>runeLen\<close> is the length of the
  well-formed sequence at the head of a string, 0 when there is none.
\<close>

definition inRange :: "char \<Rightarrow> nat \<Rightarrow> nat \<Rightarrow> bool" where
  "inRange c lo hi = (lo \<le> of_char c \<and> (of_char c :: nat) \<le> hi)"

fun runeLen :: "string \<Rightarrow> nat" where
  "runeLen [] = 0"
| "runeLen (a # r) =
     (let x = (of_char a :: nat)
      in if x < 0x80 then 1
         else if 0xC2 \<le> x \<and> x \<le> 0xDF then
           (case r of
              b # _ \<Rightarrow> if inRange b 0x80 0xBF then 2 else 0
            | _ \<Rightarrow> 0)
         else if 0xE0 \<le> x \<and> x \<le> 0xEF then
           (case r of
              b # c # _ \<Rightarrow>
                if inRange b (if x = 0xE0 then 0xA0 else 0x80) (if x = 0xED then 0x9F else 0xBF)
                   \<and> inRange c 0x80 0xBF
                then 3 else 0
            | _ \<Rightarrow> 0)
         else if 0xF0 \<le> x \<and> x \<le> 0xF4 then
           (case r of
              b # c # d # _ \<Rightarrow>
                if inRange b (if x = 0xF0 then 0x90 else 0x80) (if x = 0xF4 then 0x8F else 0xBF)
                   \<and> inRange c 0x80 0xBF \<and> inRange d 0x80 0xBF
                then 4 else 0
            | _ \<Rightarrow> 0)
         else 0)"

function coerceUTF8 :: "string \<Rightarrow> string" where
  "coerceUTF8 [] = []"
| "coerceUTF8 (a # r) =
     (if runeLen (a # r) = 0 then [CHR 0xEF, CHR 0xBF, CHR 0xBD] @ coerceUTF8 r
      else take (runeLen (a # r)) (a # r) @ coerceUTF8 (drop (runeLen (a # r)) (a # r)))"
  by pat_completeness auto
termination
  by (relation "measure length") auto

definition validUTF8 :: "string \<Rightarrow> bool" where
  "validUTF8 s = (coerceUTF8 s = s)"

text \<open>
  A map key of type \<^verbatim>\<open>int64\<close> is written in decimal (\<^verbatim>\<open>strconv.FormatInt\<close>) and read
  back with \<^verbatim>\<open>strconv.ParseInt(key, 10, 64)\<close>: an optional sign, then one or more decimal
  digits and nothing else, the value within the 64-bit range.
\<close>

definition digitChar :: "nat \<Rightarrow> char" where
  "digitChar d = char_of (48 + d)"

function formatNat :: "nat \<Rightarrow> string" where
  "formatNat n = (if n < 10 then [digitChar n] else formatNat (n div 10) @ [digitChar (n mod 10)])"
  by pat_completeness auto
termination
  by (relation "measure id") auto

definition formatInt :: "int \<Rightarrow> string" where
  "formatInt i = (if i < 0 then CHR ''-'' # formatNat (nat (- i)) else formatNat (nat i))"

fun parseDigits :: "string \<Rightarrow> nat \<Rightarrow> nat option" where
  "parseDigits [] acc = Some acc"
| "parseDigits (c # cs) acc =
     (if inRange c 48 57 then parseDigits cs (acc * 10 + (of_char c - 48)) else None)"

definition parseInt64 :: "string \<Rightarrow> int64 option" where
  "parseInt64 s =
     (case s of
        [] \<Rightarrow> None
      | c # cs \<Rightarrow>
          (let neg = (c = CHR ''-'');
               ds = (if c = CHR ''+'' \<or> c = CHR ''-'' then cs else s)
           in if ds = [] then None
              else
                (case parseDigits ds 0 of
                   None \<Rightarrow> None
                 | Some n \<Rightarrow>
                     (let v = (if neg then - int n else int n)
                      in if - (2 ^ 63) \<le> v \<and> v < 2 ^ 63 then Some (word_of_int v) else None))))"

subsection \<open>Documents\<close>

text \<open>
  The text of the record is abstracted to the JSON value it denotes. \<open>JNum\<close> is a number
  written as a plain decimal integer, \<open>JNonInt\<close> any other number (with a fraction or an
  exponent), which no integer field accepts. A string value carries the bytes of its
  literal with the escapes resolved.
\<close>

datatype json =
  JNull
| JBool bool
| JNum int
| JNonInt
| JStr string
| JArr "json list"
| JObj "(string \<times> json) list"

text \<open>
  What \<^verbatim>\<open>os.Open\<close> and the decoder can meet at \<^verbatim>\<open>statePath\<close>: no file, a file that
  cannot be opened, a file whose text is not JSON, or a document.
\<close>

datatype disk = NotExist | OpenFails | Malformed | Doc json

datatype io_error = OpenError | DecodeError | WriteError

subsection \<open>Encoding (\<^verbatim>\<open>json.MarshalIndent\<close> on the tagged structs)\<close>

text \<open>
  Members appear under the names of the struct tags, in the order of the fields. The
  encoder sorts the keys of a map; the model lists them in increasing order of the key
  (the order of the members of an object has no influence on decoding). A nil slice is
  written \<^verbatim>\<open>null\<close> and an empty one \<^verbatim>\<open>[]\<close>; the model, which has one empty list, writes
  the array, and the decoder below reads both as the empty list. Encoding these types
  cannot fail.
\<close>

definition encString :: "string \<Rightarrow> json" where
  "encString s = JStr (coerceUTF8 s)"

definition encInt64 :: "int64 \<Rightarrow> json" where
  "encInt64 n = JNum (sint n)"

definition marshalUser :: "User \<Rightarrow> json" where
  "marshalUser u =
     JObj [(''id'', encInt64 (User.ID u)),
           (''name'', encString (User.Name u)),
           (''has_paid'', JBool (HasPaid u))]"

definition marshalUserPtr :: "User option \<Rightarrow> json" where
  "marshalUserPtr p = (case p of None \<Rightarrow> JNull | Some u \<Rightarrow> marshalUser u)"

definition marshalTrainer :: "Trainer \<Rightarrow> json" where
  "marshalTrainer t =
     JObj [(''id'', encInt64 (Trainer.ID t)),
           (''name'', encString (Trainer.Name t)),
           (''bio'', encString (Bio t)),
           (''achievements'', JArr (map encString (Achievements t))),
           (''slots'', JArr (map encString (Slots t)))]"

definition marshalBooking :: "Booking \<Rightarrow> json" where
  "marshalBooking b =
     JObj [(''user_id'', encInt64 (UserID b)),
           (''trainer'', encInt64 (Trainer b)),
           (''time_slot'', encString (TimeSlot b)),
           (''booked_at'', encInt64 (BookedAt b))]"

definition marshalUsers :: "(int64 \<rightharpoonup> User option) \<Rightarrow> json" where
  "marshalUsers m =
     JObj (map (\<lambda>k. (formatInt (sint k), marshalUserPtr (the (m k))))
             (sorted_list_of_set (dom m)))"

definition marshalState :: "AppState \<Rightarrow> json" where
  "marshalState s =
     JObj [(''users'', marshalUsers (Users s)),
           (''trainers'', JArr (map marshalTrainer (Trainers s))),
           (''bookings'', JArr (map marshalBooking (Bookings s)))]"

subsection \<open>Decoding (\<^verbatim>\<open>json.Decoder.Decode\<close> into the tagged structs)\<close>

text \<open>
  The decoder walks the members of an object in order and stores each one whose name
  matches a tag; the match ignores the case of letters, for which the library folds ASCII
  capitals, the Kelvin sign (U+212A) to \<^verbatim>\<open>k\<close> and the long s (U+017F) to \<^verbatim>\<open>s\<close>. Other
  members are skipped, \<^verbatim>\<open>null\<close> leaves the target as it is, and a value of the wrong kind
  is an error (\<open>None\<close>). Each decoder takes the current value of its target.
\<close>

definition lowerAscii :: "char \<Rightarrow> char" where
  "lowerAscii c = (if inRange c 65 90 then char_of (of_char c + (32::nat)) else c)"

fun foldName :: "string \<Rightarrow> string" where
  "foldName (a # b # c # cs) =
     (if a = CHR 0xE2 \<and> b = CHR 0x84 \<and> c = CHR 0xAA then CHR ''k'' # foldName cs
      else if a = CHR 0xC5 \<and> b = CHR 0xBF then CHR ''s'' # foldName (c # cs)
      else lowerAscii a # foldName (b # c # cs))"
| "foldName [a, b] =
     (if a = CHR 0xC5 \<and> b = CHR 0xBF then [CHR ''s''] else [lowerAscii a, lowerAscii b])"
| "foldName [a] = [lowerAscii a]"
| "foldName [] = []"

fun foldFields ::
  "(string \<Rightarrow> json \<Rightarrow> 'r \<Rightarrow> 'r option) \<Rightarrow> (string \<times> json) list \<Rightarrow> 'r \<Rightarrow> 'r option" where
  "foldFields f [] r = Some r"
| "foldFields f ((k, v) # kvs) r =
     (case f k v r of None \<Rightarrow> None | Some r' \<Rightarrow> foldFields f kvs r')"

fun decList :: "(json \<Rightarrow> 'a option) \<Rightarrow> json list \<Rightarrow> 'a list option" where
  "decList f [] = Some []"
| "decList f (v # vs) =
     (case f v of
        None \<Rightarrow> None
      | Some x \<Rightarrow> (case decList f vs of None \<Rightarrow> None | Some xs \<Rightarrow> Some (x # xs)))"

fun decInt64 :: "json \<Rightarrow> int64 \<Rightarrow> int64 option" where
  "decInt64 JNull cur = Some cur"
| "decInt64 (JNum n) cur =
     (if - (2 ^ 63) \<le> n \<and> n < 2 ^ 63 then Some (word_of_int n) else None)"
| "decInt64 _ cur = None"

fun decString :: "json \<Rightarrow> string \<Rightarrow> string option" where
  "decString JNull cur = Some cur"
| "decString (JStr s) cur = Some (coerceUTF8 s)"
| "decString _ cur = None"

fun decBool :: "json \<Rightarrow> bool \<Rightarrow> bool option" where
  "decBool JNull cur = Some cur"
| "decBool (JBool b) cur = Some b"
| "decBool _ cur = None"

fun decStrings :: "json \<Rightarrow> string list \<Rightarrow> string list option" where
  "decStrings JNull cur = Some cur"
| "decStrings (JArr vs) cur = decList (\<lambda>v. decString v []) vs"
| "decStrings _ cur = None"

definition zeroUser :: User where
  "zeroUser = \<lparr>User.ID = 0, Name = [], HasPaid = False\<rparr>"

definition zeroTrainer :: Trainer where
  "zeroTrainer = \<lparr>Trainer.ID = 0, Name = [], Bio = [], Achievements = [], Slots = []\<rparr>"

definition zeroBooking :: Booking where
  "zeroBooking = \<lparr>UserID = 0, Trainer = 0, TimeSlot = [], BookedAt = 0\<rparr>"

definition zeroState :: AppState where
  "zeroState = \<lparr>Users = Map.empty, Trainers = [], Bookings = []\<rparr>"

definition decUserField :: "string \<Rightarrow> json \<Rightarrow> User \<Rightarrow> User option" where
  "decUserField k v u =
     (let n = foldName k
      in if n = ''id'' then map_option (\<lambda>x. u\<lparr>User.ID := x\<rparr>) (decInt64 v (User.ID u))
         else if n = ''name'' then map_option (\<lambda>x. u\<lparr>User.Name := x\<rparr>) (decString v (User.Name u))
         else if n = ''has_paid'' then map_option (\<lambda>x. u\<lparr>HasPaid := x\<rparr>) (decBool v (HasPaid u))
         else Some u)"

text \<open>The element of the map is a fresh nil pointer: \<^verbatim>\<open>null\<close> leaves it nil, an object
  allocates a zero \<^verbatim>\<open>User\<close> and fills it.\<close>

fun decUserPtr :: "json \<Rightarrow> User option option" where
  "decUserPtr JNull = Some None"
| "decUserPtr (JObj kvs) = map_option Some (foldFields decUserField kvs zeroUser)"
| "decUserPtr _ = None"

definition decUsersMember ::
  "string \<Rightarrow> json \<Rightarrow> (int64 \<rightharpoonup> User option) \<Rightarrow> (int64 \<rightharpoonup> User option) option" where
  "decUsersMember k v m =
     (case decUserPtr v of
        None \<Rightarrow> None
      | Some p \<Rightarrow> (case parseInt64 k of None \<Rightarrow> None | Some key \<Rightarrow> Some (m(key \<mapsto> p))))"

fun decUsers :: "json \<Rightarrow> (int64 \<rightharpoonup> User option) \<Rightarrow> (int64 \<rightharpoonup> User option) option" where
  "decUsers JNull cur = Some cur"
| "decUsers (JObj kvs) cur = foldFields decUsersMember kvs cur"
| "decUsers _ cur = None"

definition decTrainerField :: "string \<Rightarrow> json \<Rightarrow> Trainer \<Rightarrow> Trainer option" where
  "decTrainerField k v t =
     (let n = foldName k
      in if n = ''id'' then map_option (\<lambda>x. t\<lparr>Trainer.ID := x\<rparr>) (decInt64 v (Trainer.ID t))
         else if n = ''name'' then
           map_option (\<lambda>x. t\<lparr>Trainer.Name := x\<rparr>) (decString v (Trainer.Name t))
         else if n = ''bio'' then map_option (\<lambda>x. t\<lparr>Bio := x\<rparr>) (decString v (Bio t))
         else if n = ''achievements'' then
           map_option (\<lambda>x. t\<lparr>Achievements := x\<rparr>) (decStrings v (Achievements t))
         else if n = ''slots'' then map_option (\<lambda>x. t\<lparr>Slots := x\<rparr>) (decStrings v (Slots t))
         else Some t)"

fun decTrainer :: "json \<Rightarrow> Trainer \<Rightarrow> Trainer option" where
  "decTrainer JNull cur = Some cur"
| "decTrainer (JObj kvs) cur = foldFields decTrainerField kvs cur"
| "decTrainer _ cur = None"

definition decBookingField :: "string \<Rightarrow> json \<Rightarrow> Booking \<Rightarrow> Booking option" where
  "decBookingField k v b =
     (let n = foldName k
      in if n = ''user_id'' then map_option (\<lambda>x. b\<lparr>UserID := x\<rparr>) (decInt64 v (UserID b))
         else if n = ''trainer'' then map_option (\<lambda>x. b\<lparr>Trainer := x\<rparr>) (decInt64 v (Trainer b))
         else if n = ''time_slot'' then
           map_option (\<lambda>x. b\<lparr>TimeSlot := x\<rparr>) (decString v (TimeSlot b))
         else if n = ''booked_at'' then
           map_option (\<lambda>x. b\<lparr>BookedAt := x\<rparr>) (decInt64 v (BookedAt b))
         else Some b)"

fun decBooking :: "json \<Rightarrow> Booking \<Rightarrow> Booking option" where
  "decBooking JNull cur = Some cur"
| "decBooking (JObj kvs) cur = foldFields decBookingField kvs cur"
| "decBooking _ cur = None"

text \<open>An array replaces the slice; its elements are decoded into zero values.\<close>

fun decTrainers :: "json \<Rightarrow> Trainer list \<Rightarrow> Trainer list option" where
  "decTrainers JNull cur = Some cur"
| "decTrainers (JArr vs) cur = decList (\<lambda>v. decTrainer v zeroTrainer) vs"
| "decTrainers _ cur = None"

fun decBookings :: "json \<Rightarrow> Booking list \<Rightarrow> Booking list option" where
  "decBookings JNull cur = Some cur"
| "decBookings (JArr vs) cur = decList (\<lambda>v. decBooking v zeroBooking) vs"
| "decBookings _ cur = None"

definition decStateField :: "string \<Rightarrow> json \<Rightarrow> AppState \<Rightarrow> AppState option" where
  "decStateField k v s =
     (let n = foldName k
      in if n = ''users'' then map_option (\<lambda>x. s\<lparr>Users := x\<rparr>) (decUsers v (Users s))
         else if n = ''trainers'' then
           map_option (\<lambda>x. s\<lparr>Trainers := x\<rparr>) (decTrainers v (Trainers s))
         else if n = ''bookings'' then
           map_option (\<lambda>x. s\<lparr>Bookings := x\<rparr>) (decBookings v (Bookings s))
         else Some s)"

fun decState :: "json \<Rightarrow> AppState \<Rightarrow> AppState option" where
  "decState JNull cur = Some cur"
| "decState (JObj kvs) cur = foldFields decStateField kvs cur"
| "decState _ cur = None"

subsection \<open>\<^verbatim>\<open>saveState\<close> and \<^verbatim>\<open>loadState\<close>\<close>

text \<open>
  \<^verbatim>\<open>os.WriteFile\<close> either replaces the file by the new text or fails, leaving whatever
  it leaves (the source overwrites in place, so a failed write may truncate the file).
\<close>

datatype write_outcome = WriteOk | WriteFails disk

definition saveState :: "AppState \<Rightarrow> write_outcome \<Rightarrow> io_error option \<times> disk" where
  "saveState s w =
     (case w of
        WriteOk \<Rightarrow> (None, Doc (marshalState s))
      | WriteFails d \<Rightarrow> (Some WriteError, d))"

text \<open>
  \<open>cur\<close> is the global \<^verbatim>\<open>state\<close> at the call, which \<^verbatim>\<open>loadState\<close> leaves alone when it
  returns an error before line 81 or line 102; \<open>w\<close> is the outcome of the write at line 83,
  should it happen. The result is the returned error, the new global state and the file.
  Lines 97-99 replace a nil map by an empty one, which are the same map here.
\<close>

definition loadState ::
  "AppState \<Rightarrow> disk \<Rightarrow> write_outcome \<Rightarrow> io_error option \<times> AppState \<times> disk" where
  "loadState cur d w =
     (case d of
        NotExist \<Rightarrow> (let (e, d') = saveState fresh w in (e, fresh, d'))
      | OpenFails \<Rightarrow> (Some OpenError, cur, d)
      | Malformed \<Rightarrow> (Some DecodeError, cur, d)
      | Doc j \<Rightarrow>
          (case decState j zeroState of
             None \<Rightarrow> (Some DecodeError, cur, d)
           | Some tmp \<Rightarrow>
               (let tmp' = (if length (Trainers tmp) = 0
                            then tmp\<lparr>Trainers := defaultTrainers\<rparr> else tmp)
                in (None, tmp', d))))"

section \<open>The schedule keyboard (lines 237-256)\<close>

text \<open>
  Line 239 indexes the trainer slice with \<^verbatim>\<open>trainerID-1\<close>; the subtraction wraps as
  machine arithmetic does, and an index outside the slice panics, which is \<open>None\<close> here.
\<close>

definition scheduleSlots :: "AppState \<Rightarrow> int64 \<Rightarrow> string list option" where
  "scheduleSlots s tid =
     (let i = sint (tid - 1)
      in if 0 \<le> i \<and> i < int (length (Trainers s)) then Some (Slots (Trainers s ! nat i))
         else None)"

text \<open>A button carries its caption and its callback data.\<close>

datatype button = Button string string

definition backCaption :: string where
  "backCaption =
    [CHR 0xE2, CHR 0xAC, CHR 0x85, CHR 0xEF, CHR 0xB8, CHR 0x8F, CHR 0x20, CHR 0xD0, CHR 0x9D,
     CHR 0xD0, CHR 0xB0, CHR 0xD0, CHR 0xB7, CHR 0xD0, CHR 0xB0, CHR 0xD0, CHR 0xB4]"

text \<open>The loop of lines 244-250: \<open>i\<close> is the index of the head of the list, \<open>row\<close> the
  row under construction; the last lines add an unfinished row.\<close>

fun scheduleRows :: "int64 \<Rightarrow> string list \<Rightarrow> nat \<Rightarrow> button list \<Rightarrow> button list list" where
  "scheduleRows tid [] i row = (if length row > 0 then [row] else [])"
| "scheduleRows tid (s # ss) i row =
     (let row' = row @ [Button s (''slot_'' @ formatInt (sint tid) @ ''_'' @ s)]
      in if (i + 1) mod 4 = 0 then row' # scheduleRows tid ss (i + 1) []
         else scheduleRows tid ss (i + 1) row')"

definition scheduleKeyboard :: "AppState \<Rightarrow> int64 \<Rightarrow> button list list option" where
  "scheduleKeyboard s tid =
     (case scheduleSlots s tid of
        None \<Rightarrow> None
      | Some slots \<Rightarrow> Some (scheduleRows tid slots 0 [] @ [[Button backCaption ''trainers'']]))"

section \<open>The handlers of the main loop that change the state (lines 337-343, 393-434)\<close>

text \<open>
  The payment callback (lines 424-426) sets the flag through the pointer stored under
  the user's key; a missing key yields a nil pointer, and writing through nil panics
  (\<open>None\<close>).
\<close>

definition grantPayment :: "AppState \<Rightarrow> int64 \<Rightarrow> AppState option" where
  "grantPayment s uid =
     (case Users s uid of
        Some (Some u) \<Rightarrow> Some (s\<lparr>Users := (Users s)(uid \<mapsto> Some (u\<lparr>HasPaid := True\<rparr>))\<rparr>)
      | _ \<Rightarrow> None)"

text \<open>
  The messages of the slot callback, by their line: 403, 408, 413-414 and 417-419.
  \<^verbatim>\<open>send\<close> (lines 439-445) logs a failed delivery; \<open>ok\<close> is what the transport answers.
  The main loop handles one update at a time, so a handler is a function of the state,
  the file and the answers of its environment.
\<close>

datatype message =
  PayFirstMsg
| BookFailedMsg error
| ConfirmedMsg int64 string
| SlotsUpdatedMsg string "button list list"

datatype event = Delivered message | Undelivered message | Logged string

definition send :: "bool \<Rightarrow> message \<Rightarrow> event list" where
  "send ok m = (if ok then [Delivered m] else [Undelivered m, Logged ''send error''])"

record world =
  st :: AppState
  store :: disk
  trace :: "event list"

datatype outcome = Continue world | Panicked world

text \<open>
  The callback whose data starts with \<^verbatim>\<open>slot_\<close>, from line 339 on. \<open>tid\<close> and \<open>slot\<close>
  are what lines 394-400 read from the data (\<^verbatim>\<open>strings.SplitN\<close> and \<^verbatim>\<open>fmt.Sscanf\<close>), \<open>nm\<close>
  the first name of the sender, \<open>now\<close> the clock, \<open>w\<close> the outcome of the write inside
  \<^verbatim>\<open>saveState\<close>, \<open>net k\<close> the outcome of the \<open>k\<close>-th delivery. The result of
  \<^verbatim>\<open>answerCallback\<close> (line 343) and the error of \<^verbatim>\<open>saveState\<close> (line 411) are assigned
  to the blank identifier. Reading a field through a nil pointer (lines 402, 417) panics.
\<close>

definition slotCallback ::
  "world \<Rightarrow> int64 \<Rightarrow> string \<Rightarrow> int64 \<Rightarrow> string \<Rightarrow> int64 \<Rightarrow> write_outcome \<Rightarrow> (nat \<Rightarrow> bool) \<Rightarrow> outcome"
  where
  "slotCallback wd uid nm tid slot now w net =
     (let (s1, user) = getOrCreateUser (st wd) uid nm
      in case user of
           None \<Rightarrow> Panicked (wd\<lparr>st := s1\<rparr>)
         | Some u \<Rightarrow>
             if \<not> HasPaid u then
               Continue (wd\<lparr>st := s1, trace := trace wd @ send (net 0) PayFirstMsg\<rparr>)
             else
               (case bookSlot s1 uid tid slot now of
                  Inl e \<Rightarrow>
                    Continue (wd\<lparr>st := s1, trace := trace wd @ send (net 0) (BookFailedMsg e)\<rparr>)
                | Inr s2 \<Rightarrow>
                    (let (e, d) = saveState s2 w;
                         tr1 = trace wd @ send (net 0) (ConfirmedMsg tid slot)
                     in case getTrainerByID s2 tid of
                          None \<Rightarrow> Panicked \<lparr>st = s2, store = d, trace = tr1\<rparr>
                        | Some (tr, i) \<Rightarrow>
                            (case scheduleKeyboard s2 (Trainer.ID tr) of
                               None \<Rightarrow> Panicked \<lparr>st = s2, store = d, trace = tr1\<rparr>
                             | Some kb \<Rightarrow>
                                 Continue
                                   \<lparr>st = s2, store = d,
                                    trace = tr1 @
                                      send (net 1) (SlotsUpdatedMsg (Trainer.Name tr) kb)\<rparr>))))"

section \<open>Reachable states\<close>

text \<open>
  The states the program can be in after a start without a record: the fresh state, and
  what the three operations that assign to the state make of a reachable state. The names
  that reach \<^verbatim>\<open>getOrCreateUser\<close> are fields of updates that the transport library decoded
  from JSON, trimmed and joined with a space (lines 302-307, 340), hence well-formed UTF-8.
\<close>

inductive reachable :: "AppState \<Rightarrow> bool" where
  reach_fresh: "reachable fresh"
| reach_book: "reachable s \<Longrightarrow> bookSlot s uid tid slot now = Inr s' \<Longrightarrow> reachable s'"
| reach_user: "reachable s \<Longrightarrow> validUTF8 nm \<Longrightarrow> reachable (fst (getOrCreateUser s uid nm))"
| reach_pay: "reachable s \<Longrightarrow> grantPayment s uid = Some s' \<Longrightarrow> reachable s'"

section \<open>Facts about the search loops\<close>

lemma firstIndex_Some:
  "firstIndex P xs = Some i \<Longrightarrow> i < length xs \<and> P (xs ! i) \<and> (\<forall>j<i. \<not> P (xs ! j))"
proof (induction xs arbitrary: i)
  case Nil
  then show ?case by simp
next
  case (Cons x xs)
  show ?case
  proof (cases "P x")
    case True
    with Cons.prems show ?thesis by simp
  next
    case False
    with Cons.prems obtain k where k: "firstIndex P xs = Some k" "i = Suc k"
      by auto
    from Cons.IH [OF k(1)] False k(2) show ?thesis
      by (auto simp: less_Suc_eq_0_disj)
  qed
qed

lemma firstIndex_None: "firstIndex P xs = None \<longleftrightarrow> (\<forall>x\<in>set xs. \<not> P x)"
  by (induction xs) auto

lemma firstIndex_remove1:
  "firstIndex (\<lambda>x. x = a) xs = Some i \<Longrightarrow> take i xs @ drop (Suc i) xs = remove1 a xs"
  by (induction xs arbitrary: i) (auto split: if_splits)

lemma scanBookings_other_users:
  "\<forall>b\<in>set bs. UserID b \<noteq> uid \<Longrightarrow> scanBookings uid tid bs ex cnt = Inr cnt"
  by (induction bs) auto

lemma bookSlot_Inr_cases:
  assumes "bookSlot s uid tid slot now = Inr s'"
  obtains cnt idx pos where
    "scanBookings uid tid (Bookings s) 0 0 = Inr cnt" "cnt < 3"
    "firstIndex (\<lambda>t. Trainer.ID t = tid) (Trainers s) = Some idx"
    "firstIndex (\<lambda>x. x = slot) (Slots (Trainers s ! idx)) = Some pos"
    "s' = s\<lparr>Trainers := (Trainers s)[idx := (Trainers s ! idx)
              \<lparr>Slots := take pos (Slots (Trainers s ! idx)) @ drop (pos + 1) (Slots (Trainers s ! idx))\<rparr>],
            Bookings := Bookings s @ [\<lparr>UserID = uid, Trainer = tid, TimeSlot = slot, BookedAt = now\<rparr>]\<rparr>"
  using assms unfolding bookSlot_def
  by (auto split: sum.splits if_splits option.splits simp: Let_def)

section \<open>The shape of a successful booking\<close>

text \<open>
  Claim C8. A successful \<^verbatim>\<open>bookSlot\<close> finds the trainer at the first index \<open>idx\<close> whose
  ID is the requested one and the slot at its first position \<open>pos\<close> in that trainer's
  list; the new list is the old one without position \<open>pos\<close>, that is, without the first
  occurrence of the label, the other labels keeping their order; the trainer's ID, name,
  biography and achievements are unchanged, and so is every other trainer's record.
\<close>

theorem bookSlot_removes_first_occurrence:
  assumes "bookSlot s uid tid slot now = Inr s'"
  shows "\<exists>idx pos.
           firstIndex (\<lambda>t. Trainer.ID t = tid) (Trainers s) = Some idx \<and>
           idx < length (Trainers s) \<and>
           length (Trainers s') = length (Trainers s) \<and>
           pos < length (Slots (Trainers s ! idx)) \<and>
           Slots (Trainers s ! idx) ! pos = slot \<and>
           (\<forall>j<pos. Slots (Trainers s ! idx) ! j \<noteq> slot) \<and>
           Slots (Trainers s' ! idx) =
             take pos (Slots (Trainers s ! idx)) @ drop (Suc pos) (Slots (Trainers s ! idx)) \<and>
           Slots (Trainers s' ! idx) = remove1 slot (Slots (Trainers s ! idx)) \<and>
           Trainer.ID (Trainers s' ! idx) = Trainer.ID (Trainers s ! idx) \<and>
           Trainer.Name (Trainers s' ! idx) = Trainer.Name (Trainers s ! idx) \<and>
           Bio (Trainers s' ! idx) = Bio (Trainers s ! idx) \<and>
           Achievements (Trainers s' ! idx) = Achievements (Trainers s ! idx) \<and>
           (\<forall>j. j \<noteq> idx \<longrightarrow> Trainers s' ! j = Trainers s ! j)"
proof -
  from assms obtain cnt idx pos where
    idx: "firstIndex (\<lambda>t. Trainer.ID t = tid) (Trainers s) = Some idx" and
    pos: "firstIndex (\<lambda>x. x = slot) (Slots (Trainers s ! idx)) = Some pos" and
    s': "s' = s\<lparr>Trainers := (Trainers s)[idx := (Trainers s ! idx)
              \<lparr>Slots := take pos (Slots (Trainers s ! idx)) @ drop (pos + 1) (Slots (Trainers s ! idx))\<rparr>],
            Bookings := Bookings s @ [\<lparr>UserID = uid, Trainer = tid, TimeSlot = slot, BookedAt = now\<rparr>]\<rparr>"
    by (rule bookSlot_Inr_cases)
  from firstIndex_Some [OF idx] have i: "idx < length (Trainers s)" by simp
  from firstIndex_Some [OF pos] have p: "pos < length (Slots (Trainers s ! idx))"
    "Slots (Trainers s ! idx) ! pos = slot" "\<forall>j<pos. Slots (Trainers s ! idx) ! j \<noteq> slot"
    by simp_all
  from firstIndex_remove1 [OF pos]
  have r: "take pos (Slots (Trainers s ! idx)) @ drop (Suc pos) (Slots (Trainers s ! idx))
             = remove1 slot (Slots (Trainers s ! idx))" .
  show ?thesis
    apply (rule exI [of _ idx], rule exI [of _ pos])
    using idx i p r by (simp add: s')
qed

theorem bookSlot_removes_first_occurrence_witness:
  "bookSlot fresh 7 1 ''08:00'' 1700000000 =
     Inr (projr (bookSlot fresh 7 1 ''08:00'' 1700000000)) \<and>
   Slots (Trainers (projr (bookSlot fresh 7 1 ''08:00'' 1700000000)) ! 0) =
     remove1 ''08:00'' defaultSlots"
proof -
  have h: "bookSlot fresh 7 1 ''08:00'' 1700000000 =
     Inr (projr (bookSlot fresh 7 1 ''08:00'' 1700000000))"
    by (simp add: bookSlot_def fresh_def defaultTrainers_def defaultSlots_def)
  have i: "firstIndex (\<lambda>t. Trainer.ID t = 1) (Trainers fresh) = Some 0"
    by (simp add: fresh_def defaultTrainers_def)
  have d: "Slots (Trainers fresh ! 0) = defaultSlots"
    by (simp add: fresh_def defaultTrainers_def)
  from bookSlot_removes_first_occurrence [OF h] i d show ?thesis
    using h by auto
qed

end
